theory Spec2Isabelle
  imports Complex_Main "HOL-Library.AList" "HOL-Library.Sublist"
begin

section \<open>The retraining script \<open>scripts/retrain.py\<close>\<close>

text \<open>
  The script is straight-line orchestration code: it reads the parsed command-line flags,
  calls the operating system, the logger and the training framework in a fixed order, and
  performs two integer divisions of its own. The embedding keeps exactly that:
  \<^item> the flags are a record;
  \<^item> every call that leaves the script (file system, logger, framework) is an event, and a
    function of the script returns the list of events it issues, in order, together with
    its value;
  \<^item> what the outside world hands back (the label mapping found by a directory scan, the
    paths chosen by the serializer, the measured accuracies, the clock) is read from an
    environment record;
  \<^item> Python's \<open>//\<close> raises on a zero divisor, so it returns a sum type;
  \<^item> no function of the script catches an exception, so a call that raises ends the run:
    \<open>run\<close> cuts the event list after the first call that does not return;
  \<^item> what the copy of the export does to the files is the library's doing: it is modelled
    apart, on a tree of directories and files.
\<close>

subsection \<open>Python and library primitives used by the script\<close>

datatype py_error = ZeroDivisionError

definition floordiv :: "int \<Rightarrow> int \<Rightarrow> py_error + int" where
  \<comment> \<open>\<open>a // b\<close> on Python integers: floor division, \<open>ZeroDivisionError\<close> for \<open>b = 0\<close>.\<close>
  "floordiv a b = (if b = 0 then Inl ZeroDivisionError else Inr (a div b))"

definition join :: "string \<Rightarrow> string \<Rightarrow> string" where
  \<comment> \<open>\<open>os.path.join(a, b)\<close> of posixpath, for two arguments: \<open>b\<close> alone when it starts
      with a slash, otherwise \<open>a\<close> and \<open>b\<close> with a slash between them unless \<open>a\<close> is empty or
      ends with one.\<close>
  "join a b =
     (if take 1 b = ''/'' then b
      else if a = [] then a @ b
      else if last a = CHR ''/'' then a @ b
      else a @ ''/'' @ b)"

definition rstrip_slash :: "string \<Rightarrow> string" where
  \<comment> \<open>\<open>s.rstrip('/')\<close>\<close>
  "rstrip_slash s = rev (dropWhile (\<lambda>c. c = CHR ''/'') (rev s))"

definition dirname :: "string \<Rightarrow> string" where
  \<comment> \<open>\<open>os.path.dirname(p)\<close> of posixpath: everything up to the last slash, with the
      trailing slashes removed unless nothing but slashes would be removed.\<close>
  "dirname p =
     (let head = rev (dropWhile (\<lambda>c. c \<noteq> CHR ''/'') (rev p))
      in if head = [] then head
         else if list_all (\<lambda>c. c = CHR ''/'') head then head
         else rstrip_slash head)"

subsection \<open>The file system and the library function \<open>copy_tree\<close>\<close>

text \<open>
  The script copies the export with \<open>distutils.dir_util.copy_tree\<close>. What that call does to
  the files is library behaviour; it is modelled here from the library's source
  (\<open>dir_util.copy_tree\<close>, \<open>dir_util.mkpath\<close>, \<open>file_util.copy_file\<close>) on a file system that
  is a tree of directories and regular files. A directory lists each name once. Symbolic
  links, special files, permissions and times are not part of the model, and a copy that
  fails returns the error only, not the partly copied tree.
\<close>

datatype node =
    File string  \<comment> \<open>a regular file and its bytes\<close>
  | Dir "(string \<times> node) list"  \<comment> \<open>a directory and its entries, in the order of \<open>os.listdir\<close>\<close>

datatype copy_error = DistutilsFileError

fun split_path :: "string \<Rightarrow> string list" where
  \<comment> \<open>\<open>p.split('/')\<close>\<close>
  "split_path [] = [[]]"
| "split_path (c # cs) =
     (if c = CHR ''/'' then [] # split_path cs
      else (case split_path cs of [] \<Rightarrow> [[c]] | part # parts \<Rightarrow> (c # part) # parts))"

definition components :: "string \<Rightarrow> string list" where
  \<comment> \<open>The names a path walks through: an empty part (a doubled or trailing slash) and
      \<open>.\<close> are no step.\<close>
  "components p = filter (\<lambda>part. part \<noteq> [] \<and> part \<noteq> ''.'') (split_path p)"

definition resolve :: "string list \<Rightarrow> string \<Rightarrow> string list option" where
  \<comment> \<open>The place a path names, as the list of names from the root, for a process whose
      working directory is \<open>cwd\<close>. \<open>None\<close> where the model does not say: for the empty string,
      which names nothing, and for a path with a \<open>..\<close> part, whose meaning depends on what
      exists.\<close>
  "resolve cwd p =
     (if p = [] then None
      else if ''..'' \<in> set (components p) then None
      else if take 1 p = ''/'' then Some (components p)
      else Some (cwd @ components p))"

fun lookup :: "string list \<Rightarrow> node \<Rightarrow> node option" where
  \<comment> \<open>What stands at a place, seen from the root.\<close>
  "lookup [] n = Some n"
| "lookup (c # cs) (File b) = None"
| "lookup (c # cs) (Dir es) = (case map_of es c of None \<Rightarrow> None | Some n \<Rightarrow> lookup cs n)"

fun mkpath :: "string list \<Rightarrow> node \<Rightarrow> copy_error + node" where
  \<comment> \<open>\<open>mkpath(name)\<close>: create the directory and its missing ancestors; nothing changes when
      it exists; \<open>DistutilsFileError\<close> when a regular file stands in the way.\<close>
  "mkpath [] (Dir es) = Inr (Dir es)"
| "mkpath [] (File b) = Inl DistutilsFileError"
| "mkpath (c # cs) (File b) = Inl DistutilsFileError"
| "mkpath (c # cs) (Dir es) =
     (case mkpath cs (case map_of es c of None \<Rightarrow> Dir [] | Some n \<Rightarrow> n) of
        Inl err \<Rightarrow> Inl err
      | Inr n' \<Rightarrow> Inr (Dir (AList.update c n' es)))"

fun put :: "string list \<Rightarrow> node \<Rightarrow> node \<Rightarrow> node" where
  \<comment> \<open>The tree with the node at an existing place replaced.\<close>
  "put [] new n = new"
| "put (c # cs) new (File b) = File b"
| "put (c # cs) new (Dir es) =
     (case map_of es c of
        None \<Rightarrow> Dir es
      | Some n \<Rightarrow> Dir (AList.update c (put cs new n) es))"

definition is_nfs :: "string \<Rightarrow> bool" where
  \<comment> \<open>\<open>n.startswith('.nfs')\<close>: \<open>copy_tree\<close> skips these names.\<close>
  "is_nfs n = (take 4 n = ''.nfs'')"

definition copy_file ::
  "string \<Rightarrow> string \<Rightarrow> (string \<times> node) list \<Rightarrow> copy_error + (string \<times> node) list"
where
  \<comment> \<open>\<open>copy_file(src/n, dst/n)\<close> for a regular file \<open>src/n\<close> with the given bytes, on the
      entries of \<open>dst\<close>: when \<open>dst/n\<close> is a directory the file goes to \<open>dst/n/n\<close>, and the copy
      fails when that is a directory too; otherwise \<open>dst/n\<close> becomes the file.\<close>
  "copy_file n bytes ds =
     (case map_of ds n of
        Some (Dir sub) \<Rightarrow>
          (case map_of sub n of
             Some (Dir x) \<Rightarrow> Inl DistutilsFileError
           | _ \<Rightarrow> Inr (AList.update n (Dir (AList.update n (File bytes) sub)) ds))
      | _ \<Rightarrow> Inr (AList.update n (File bytes) ds))"

fun copy_node :: "node \<Rightarrow> node option \<Rightarrow> copy_error + node"
  and copy_entries ::
    "(string \<times> node) list \<Rightarrow> (string \<times> node) list \<Rightarrow> copy_error + (string \<times> node) list"
where
  \<comment> \<open>\<open>copy_node src dst\<close> is the recursive call \<open>copy_tree(src, dst)\<close> on what stands at the
      two places: the source must be a directory, the destination is created when absent
      and must not be a regular file. \<open>copy_entries\<close> is the loop over the names of the
      source, on the entries of the destination.\<close>
  "copy_node (File b) dst = Inl DistutilsFileError"
| "copy_node (Dir es) (Some (File b)) = Inl DistutilsFileError"
| "copy_node (Dir es) None =
     (case copy_entries es [] of Inl err \<Rightarrow> Inl err | Inr ds' \<Rightarrow> Inr (Dir ds'))"
| "copy_node (Dir es) (Some (Dir ds)) =
     (case copy_entries es ds of Inl err \<Rightarrow> Inl err | Inr ds' \<Rightarrow> Inr (Dir ds'))"
| "copy_entries [] ds = Inr ds"
| "copy_entries ((n, child) # es) ds =
     (if is_nfs n then copy_entries es ds
      else (case child of
              File bytes \<Rightarrow>
                (case copy_file n bytes ds of
                   Inl err \<Rightarrow> Inl err
                 | Inr ds' \<Rightarrow> copy_entries es ds')
            | Dir sub \<Rightarrow>
                (case copy_node child (map_of ds n) of
                   Inl err \<Rightarrow> Inl err
                 | Inr child' \<Rightarrow> copy_entries es (AList.update n child' ds))))"

datatype copy_result =
    Done node  \<comment> \<open>the call returned; the file system afterwards\<close>
  | Fails copy_error  \<comment> \<open>the call raised\<close>
  | Outside  \<comment> \<open>the model does not say what the call does\<close>

definition copy_tree :: "string list \<Rightarrow> string \<Rightarrow> string \<Rightarrow> node \<Rightarrow> copy_result" where
  \<comment> \<open>\<open>copy_tree(src, dst)\<close> in the working directory \<open>cwd\<close> on the file system \<open>disk\<close>. The
      library lists and copies name by name; when one directory lies inside the other (or
      they are the same) it reads what it has just written, and the model does not follow
      that: the result is \<open>Outside\<close>, as it is for a path that \<open>resolve\<close> leaves open.\<close>
  "copy_tree cwd src dst disk =
     (case (resolve cwd src, resolve cwd dst) of
        (Some s, Some d) \<Rightarrow>
          (if prefix s d then Outside
           else if prefix d s then Outside
           else (case lookup s disk of
                   Some (Dir es) \<Rightarrow>
                     (case mkpath d disk of
                        Inl err \<Rightarrow> Fails err
                      | Inr made \<Rightarrow>
                          (case lookup d made of
                             Some (Dir ds) \<Rightarrow>
                               (case copy_entries es ds of
                                  Inl err \<Rightarrow> Fails err
                                | Inr ds' \<Rightarrow> Done (put d (Dir ds') made))
                           | _ \<Rightarrow> Fails DistutilsFileError))
                 | _ \<Rightarrow> Fails DistutilsFileError))
      | _ \<Rightarrow> Outside)"

definition after_copy :: "string list \<Rightarrow> copy_result \<Rightarrow> node option" where
  \<comment> \<open>What stands at a place once the copy has returned.\<close>
  "after_copy p res = (case res of Done n \<Rightarrow> lookup p n | _ \<Rightarrow> None)"

fun copyable :: "node \<Rightarrow> bool"
  and copyable_entries :: "(string \<times> node) list \<Rightarrow> bool"
where
  \<comment> \<open>A tree that \<open>copy_tree\<close> copies whole: every directory lists each name once and no
      name starts with \<open>.nfs\<close>.\<close>
  "copyable (File b) = True"
| "copyable (Dir es) = copyable_entries es"
| "copyable_entries [] = True"
| "copyable_entries ((n, child) # es) =
     (if is_nfs n then False
      else if n \<in> fst ` set es then False
      else if copyable child then copyable_entries es else False)"

subsection \<open>Data: flags, framework values, events\<close>

record flags =
  image_dir :: string
  output_labels :: string
  summaries_dir :: string
  how_many_training_steps :: int
  learning_rate :: real
  train_batch_size :: int
  test_batch_size :: int
  validation_batch_size :: int
  model_dir :: string
  architecture :: string
  optimizer_name :: string
  image_size :: int
  epochs :: int

definition default_flags :: flags where
  \<comment> \<open>The defaults of the argument parser.\<close>
  "default_flags =
     \<lparr> image_dir = '''',
       output_labels = ''/tmp/output_labels.txt'',
       summaries_dir = ''/tmp/retrain_logs'',
       how_many_training_steps = 200,
       learning_rate = 1 / 100,
       train_batch_size = 100,
       test_batch_size = - 1,
       validation_batch_size = 100,
       model_dir = ''tf_files/models/retrained'',
       architecture = ''mobilenetv2_1.0_224'',
       optimizer_name = ''sgd'',
       image_size = 224,
       epochs = 10 \<rparr>"

datatype optimizer =
    SGD real  \<comment> \<open>\<open>tf.keras.optimizers.SGD(lr)\<close>\<close>
  | Adam real  \<comment> \<open>\<open>tf.keras.optimizers.Adam(lr)\<close>\<close>
  | MomentumOptimizer real real  \<comment> \<open>\<open>tf.train.MomentumOptimizer(learning_rate, momentum)\<close>\<close>

record image_data_generator =
  \<comment> \<open>The keyword arguments given to \<open>ImageDataGenerator\<close>; \<open>None\<close> for one not given.\<close>
  width_shift_range :: "real option"
  height_shift_range :: "real option"
  shear_range :: "real option"
  zoom_range :: "real option"
  horizontal_flip :: "bool option"
  preprocessing_function :: string

record directory_iterator =
  \<comment> \<open>What \<open>flow_from_directory\<close> returns: the request, and the label mapping the
      framework found by scanning the directory.\<close>
  generator :: image_data_generator
  directory :: string
  target_size :: "int \<times> int"
  batch_size :: int
  class_mode :: string
  class_indices :: "(string \<times> int) list"

datatype callback =
    ModelCheckpoint string int  \<comment> \<open>filepath, verbose\<close>
  | TensorBoard string bool bool int
      \<comment> \<open>log_dir, write_graph, write_images, histogram_freq\<close>

record keras_model =
  input_shape :: "int \<times> int \<times> int"
  layers_trainable :: bool
  classifier_units :: int
  classifier_name :: string
  loss :: string
  compiled_optimizer :: optimizer
  metrics :: "string list"

record fit_call =
  \<comment> \<open>The arguments of \<open>model.fit_generator\<close>.\<close>
  fit_generator_data :: directory_iterator
  fit_steps_per_epoch :: int
  fit_epochs :: int
  fit_validation_data :: directory_iterator
  fit_validation_steps :: int
  fit_callbacks :: "callback list"

datatype log_msg =
    Text string  \<comment> \<open>a message that is a plain string\<close>
  | LastLayer  \<comment> \<open>\<open>"\tlast layers: {}"\<close> with a shape reported by the framework\<close>
  | LastLayers  \<comment> \<open>\<open>"\tlast layers: {}, {}"\<close> with a name and a shape reported by the framework\<close>
  | SummaryResult  \<comment> \<open>the value of \<open>model.summary()\<close>\<close>
  | Accuracy real  \<comment> \<open>\<open>"\tAccuracy: {}\n"\<close> with the measured accuracy\<close>

datatype event =
    Makedirs string  \<comment> \<open>\<open>os.makedirs(path, exist_ok=True)\<close>\<close>
  | FlowFromDirectory directory_iterator
  | NpSave string "(int \<times> string) list"  \<comment> \<open>\<open>np.save(file, dict)\<close>\<close>
  | LogInfo log_msg  \<comment> \<open>\<open>logger.info(msg)\<close>\<close>
  | MobileNetV2 string bool "int \<times> int \<times> int" string
      \<comment> \<open>weights, include_top, input_shape (also the shape of the input tensor), pooling\<close>
  | SetBaseLayersTrainable bool  \<comment> \<open>the loop over \<open>base_model.layers\<close>\<close>
  | Dense int string string  \<comment> \<open>units, activation, name\<close>
  | KerasModel  \<comment> \<open>\<open>tf.keras.Model(inputs, outputs)\<close>\<close>
  | SetLayerTrainable string bool  \<comment> \<open>\<open>model.get_layer(name).trainable = b\<close>\<close>
  | Summary  \<comment> \<open>\<open>model.summary()\<close>\<close>
  | Compile string optimizer "string list"  \<comment> \<open>loss, optimizer, metrics\<close>
  | SaveKerasModel keras_model string  \<comment> \<open>\<open>save_keras_model(model, dir)\<close>\<close>
  | LoadKerasModel string  \<comment> \<open>\<open>load_keras_model(path)\<close>\<close>
  | EvaluateGenerator directory_iterator  \<comment> \<open>\<open>model.evaluate_generator(gen)\<close>\<close>
  | FitGenerator keras_model fit_call
  | CopyTree string string  \<comment> \<open>\<open>copy_tree(src, dst)\<close>\<close>
  | ClearSession  \<comment> \<open>\<open>K.clear_session()\<close>\<close>

record env =
  scan :: "string \<Rightarrow> (string \<times> int) list"
    \<comment> \<open>the label mapping \<open>flow_from_directory\<close> finds in a directory\<close>
  timestamp :: string  \<comment> \<open>\<open>time.strftime("%Y%m%d-%H%M%S")\<close>\<close>
  untrained_path :: string  \<comment> \<open>the path returned by the first \<open>save_keras_model\<close>\<close>
  output_path :: string  \<comment> \<open>the path returned by the second \<open>save_keras_model\<close>\<close>
  initial_accuracy :: real  \<comment> \<open>the accuracy returned by the first evaluation\<close>
  final_accuracy :: real  \<comment> \<open>the accuracy returned by the second evaluation\<close>

datatype outcome =
    Completed
  | Raised py_error  \<comment> \<open>an exception raised by the script's own arithmetic\<close>
  | Failed event  \<comment> \<open>an exception raised inside this call\<close>

subsection \<open>Formatting\<close>

definition digit_char :: "nat \<Rightarrow> char" where
  "digit_char d = char_of (48 + d)"

function str_nat :: "nat \<Rightarrow> string" where
  "str_nat n = (if n < 10 then [digit_char n] else str_nat (n div 10) @ [digit_char (n mod 10)])"
  by pat_completeness auto
termination
  by (relation "measure id") auto

declare str_nat.simps [simp del]

definition str_int :: "int \<Rightarrow> string" where
  \<comment> \<open>\<open>"{}".format(i)\<close> for an integer.\<close>
  "str_int i = (if i < 0 then CHR ''-'' # str_nat (nat (- i)) else str_nat (nat i))"

definition tab :: "string \<Rightarrow> string" where
  \<comment> \<open>\<open>"\t" + s\<close>\<close>
  "tab s = CHR 0x09 # s"

definition banner :: "string \<Rightarrow> string" where
  \<comment> \<open>\<open>"\n===\t" + s\<close>\<close>
  "banner s = CHR 0x0A # ''==='' @ tab s"

subsection \<open>The functions of the script\<close>

definition available_optimizers :: "real \<Rightarrow> (string \<times> optimizer) list" where
  "available_optimizers lr = [(''sgd'', SGD lr), (''adam'', Adam lr)]"

definition choose_optimizer :: "real \<Rightarrow> string option \<Rightarrow> optimizer" where
  \<comment> \<open>The \<open>if optimizer in available_optimizers\<close> statement of \<open>create_model\<close>; the
      parameter is \<open>None\<close> when the caller leaves it out.\<close>
  "choose_optimizer lr opt =
     (case opt of
        None \<Rightarrow> SGD lr
      | Some name \<Rightarrow>
          (case map_of (available_optimizers lr) name of
             Some choice \<Rightarrow> choice
           | None \<Rightarrow> SGD lr))"

definition create_feature_extractor :: "int \<times> int \<times> int \<Rightarrow> bool \<Rightarrow> event list" where
  "create_feature_extractor shape fully_trainable =
     [LogInfo (Text (tab ''Creating an MobileNet model with Imagenet weights. '')),
      MobileNetV2 ''imagenet'' False shape ''avg'',
      SetBaseLayersTrainable fully_trainable]"

definition pred_name :: "int \<Rightarrow> string" where
  "pred_name num_labels = ''predictions_'' @ str_int num_labels"

definition add_classifier :: "int \<Rightarrow> event list" where
  "add_classifier num_labels =
     [LogInfo (Text (tab (''Adding a '' @ str_int num_labels @ '' label classifier.''))),
      Dense num_labels ''softmax'' (pred_name num_labels),
      KerasModel,
      LogInfo LastLayer,
      LogInfo LastLayers,
      SetLayerTrainable (pred_name num_labels) True]"

definition create_model ::
  "int \<Rightarrow> int \<times> int \<times> int \<Rightarrow> real \<Rightarrow> string option \<Rightarrow> bool \<Rightarrow> event list \<times> keras_model"
where
  "create_model num_labels shape lr opt fully_trainable =
     (let choice = choose_optimizer lr opt
      in (create_feature_extractor shape fully_trainable
          @ add_classifier num_labels
          @ [Summary, LogInfo SummaryResult,
             Compile ''categorical_crossentropy'' choice [''accuracy'']],
          \<lparr> input_shape = shape,
            layers_trainable = fully_trainable,
            classifier_units = num_labels,
            classifier_name = pred_name num_labels,
            loss = ''categorical_crossentropy'',
            compiled_optimizer = choice,
            metrics = [''accuracy''] \<rparr>))"

definition train_datagen :: image_data_generator where
  "train_datagen =
     \<lparr> width_shift_range = Some (1 / 10),
       height_shift_range = Some (1 / 10),
       shear_range = Some (2 / 10),
       zoom_range = Some (2 / 10),
       horizontal_flip = Some True,
       preprocessing_function = ''preprocess_input'' \<rparr>"

definition datagen :: image_data_generator where
  "datagen =
     \<lparr> width_shift_range = None,
       height_shift_range = None,
       shear_range = None,
       zoom_range = None,
       horizontal_flip = None,
       preprocessing_function = ''preprocess_input'' \<rparr>"

definition flow_from_directory ::
  "env \<Rightarrow> image_data_generator \<Rightarrow> string \<Rightarrow> int \<times> int \<Rightarrow> int \<Rightarrow> directory_iterator"
where
  "flow_from_directory e g dir tsize bs =
     \<lparr> generator = g, directory = dir, target_size = tsize, batch_size = bs,
       class_mode = ''categorical'', class_indices = scan e dir \<rparr>"

definition create_data_feeders ::
  "env \<Rightarrow> string \<Rightarrow> string \<Rightarrow> string \<Rightarrow> int \<Rightarrow> int
     \<Rightarrow> event list \<times> directory_iterator \<times> directory_iterator \<times> directory_iterator"
where
  "create_data_feeders e train_dir val_dir test_dir bs isize =
     (let train_gen = flow_from_directory e train_datagen train_dir (isize, isize) bs;
          val_gen = flow_from_directory e datagen val_dir (isize, isize) bs;
          test_gen = flow_from_directory e datagen test_dir (isize, isize) bs
      in ([FlowFromDirectory train_gen, FlowFromDirectory val_gen, FlowFromDirectory test_gen],
          train_gen, val_gen, test_gen))"

definition create_callbacks :: "string \<Rightarrow> string \<Rightarrow> callback list" where
  "create_callbacks output_model_path summary_dir =
     [ModelCheckpoint output_model_path 1, TensorBoard summary_dir True True 0]"

definition evaluate_model :: "string \<Rightarrow> directory_iterator \<Rightarrow> real \<Rightarrow> event list" where
  \<comment> \<open>The last parameter is the accuracy that \<open>evaluate_generator\<close> returns. The function
      returns nothing to its caller.\<close>
  "evaluate_model path image_gen accuracy =
     [LoadKerasModel path,
      Compile ''categorical_crossentropy'' (MomentumOptimizer (1 / 1000) (9 / 10)) [''accuracy''],
      EvaluateGenerator image_gen,
      LogInfo (Accuracy accuracy)]"

definition classes_by_idx :: "(string \<times> int) list \<Rightarrow> (int \<times> string) list" where
  \<comment> \<open>\<open>{v: k for k, v in trained_classes.items()}\<close>: a dictionary keeps the position of a
      key's first insertion and the value of its last.\<close>
  "classes_by_idx trained_classes =
     foldl (\<lambda>acc (k, v). AList.update v k acc) [] trained_classes"

definition save_labels_to_file :: "directory_iterator \<Rightarrow> string \<Rightarrow> event list" where
  "save_labels_to_file train_gen labels_file =
     [Makedirs (dirname labels_file),
      LogInfo (Text (''Saving trained classes to '' @ labels_file)),
      NpSave labels_file (classes_by_idx (class_indices train_gen))]"

definition num_train_images :: int where
  "num_train_images = 2055"

definition num_labels :: int where
  "num_labels = 5"

definition main :: "flags \<Rightarrow> env \<Rightarrow> event list \<times> outcome" where
  "main f e =
     (let train_dir = join (image_dir f) ''train'';
          val_dir = join (image_dir f) ''val'';
          test_dir = join (image_dir f) ''test'';
          checkpoint_dir = join (dirname (model_dir f)) ''checkpoints'';
          checkpoint_path = join checkpoint_dir ''checkpoint.pb'';
          tb_dir = join (summaries_dir f) (timestamp e);
          (feeder_events, train_gen, val_gen, test_gen) =
             create_data_feeders e train_dir val_dir test_dir (train_batch_size f) (image_size f);
          (model_events, model) =
             create_model num_labels (image_size f, image_size f, 3) (learning_rate f)
               (Some (optimizer_name f)) False;
          callbacks = create_callbacks checkpoint_path tb_dir;
          before_training =
             [Makedirs checkpoint_dir,
              LogInfo (Text (banner ''Setting up data loaders for train, val and test data.''))]
             @ feeder_events
             @ [LogInfo (Text (banner ''Saving key file with label names <> index conversion.''))]
             @ save_labels_to_file train_gen (output_labels f)
             @ [LogInfo (Text (banner
                  ''Creating a classification model based on pre-trained weights.''))]
             @ model_events
             @ [LogInfo (Text (banner ''Initial accuracy (before retraining):'')),
                SaveKerasModel model checkpoint_dir]
             @ evaluate_model (untrained_path e) test_gen (initial_accuracy e)
             @ [LogInfo (Text (banner ''Preparing Tensorboard callback, to monitor training.'')),
                LogInfo (Text (banner ''Retraining downloaded model.''))]
      in case floordiv num_train_images (train_batch_size f) of
           Inl err \<Rightarrow> (before_training, Raised err)
         | Inr steps_per_epoch \<Rightarrow>
             (case floordiv (how_many_training_steps f) steps_per_epoch of
                Inl err \<Rightarrow> (before_training, Raised err)
              | Inr n_epochs \<Rightarrow>
                  (before_training
                   @ [FitGenerator model
                        \<lparr> fit_generator_data = train_gen,
                          fit_steps_per_epoch = steps_per_epoch,
                          fit_epochs = n_epochs,
                          fit_validation_data = val_gen,
                          fit_validation_steps = 5,
                          fit_callbacks = callbacks \<rparr>,
                      LogInfo (Text (banner
                        (''Exporting the model so it can be served (TF Serving, TF Lite, etc.) to: ''
                         @ model_dir f))),
                      SaveKerasModel model checkpoint_dir,
                      CopyTree (output_path e) (model_dir f),
                      LogInfo (Text (banner ''Reporting final model accuracy:''))]
                   @ evaluate_model (model_dir f) test_gen (final_accuracy e)
                   @ [ClearSession],
                   Completed)))"

subsection \<open>Runs in which a call may raise\<close>

fun until_raise :: "(nat \<Rightarrow> bool) \<Rightarrow> nat \<Rightarrow> event list \<Rightarrow> event list \<times> event option" where
  \<comment> \<open>The events up to the first call that raises; \<open>returns i\<close> tells whether call number
      \<open>i\<close> returns.\<close>
  "until_raise returns i [] = ([], None)"
| "until_raise returns i (ev # evs) =
     (if returns i
      then (case until_raise returns (Suc i) evs of (kept, failed) \<Rightarrow> (ev # kept, failed))
      else ([ev], Some ev))"

definition run :: "(nat \<Rightarrow> bool) \<Rightarrow> flags \<Rightarrow> env \<Rightarrow> event list \<times> outcome" where
  "run returns f e =
     (case until_raise returns 0 (fst (main f e)) of
        (kept, Some ev) \<Rightarrow> (kept, Failed ev)
      | (kept, None) \<Rightarrow> (kept, snd (main f e)))"

subsection \<open>Reading a list of events\<close>

definition fit_of :: "event \<Rightarrow> (int \<times> int) list" where
  "fit_of ev = (case ev of FitGenerator m c \<Rightarrow> [(fit_steps_per_epoch c, fit_epochs c)] | _ \<Rightarrow> [])"

definition training_schedule :: "event list \<Rightarrow> (int \<times> int) list" where
  \<comment> \<open>\<open>(steps_per_epoch, epochs)\<close> of every invocation of the training loop.\<close>
  "training_schedule evs = concat (map fit_of evs)"

definition feeder_of :: "event \<Rightarrow> directory_iterator list" where
  "feeder_of ev = (case ev of FlowFromDirectory g \<Rightarrow> [g] | _ \<Rightarrow> [])"

definition feeders :: "event list \<Rightarrow> directory_iterator list" where
  \<comment> \<open>The iterators requested from the framework.\<close>
  "feeders evs = concat (map feeder_of evs)"

definition compile_of :: "event \<Rightarrow> optimizer list" where
  "compile_of ev = (case ev of Compile l opt ms \<Rightarrow> [opt] | _ \<Rightarrow> [])"

definition compiled_with :: "event list \<Rightarrow> optimizer list" where
  \<comment> \<open>The optimizer of every \<open>compile\<close> call.\<close>
  "compiled_with evs = concat (map compile_of evs)"

definition dense_of :: "event \<Rightarrow> int list" where
  "dense_of ev = (case ev of Dense units act name \<Rightarrow> [units] | _ \<Rightarrow> [])"

definition dense_units :: "event list \<Rightarrow> int list" where
  \<comment> \<open>The number of units of every fully-connected layer that is created.\<close>
  "dense_units evs = concat (map dense_of evs)"

definition saved_of :: "event \<Rightarrow> (int \<times> string) list list" where
  "saved_of ev = (case ev of NpSave file d \<Rightarrow> [d] | _ \<Rightarrow> [])"

definition saved_labels :: "event list \<Rightarrow> (int \<times> string) list list" where
  \<comment> \<open>The dictionaries written with \<open>np.save\<close>.\<close>
  "saved_labels evs = concat (map saved_of evs)"

definition copy_of :: "event \<Rightarrow> (string \<times> string) list" where
  "copy_of ev = (case ev of CopyTree src dst \<Rightarrow> [(src, dst)] | _ \<Rightarrow> [])"

definition copies :: "event list \<Rightarrow> (string \<times> string) list" where
  \<comment> \<open>Source and destination of every \<open>copy_tree\<close> call.\<close>
  "copies evs = concat (map copy_of evs)"

datatype stage =
    Saved string  \<comment> \<open>the model was serialized below this directory\<close>
  | Loaded string  \<comment> \<open>a model was loaded from this path\<close>
  | Evaluated directory_iterator  \<comment> \<open>the loaded model was evaluated on this iterator\<close>
  | LoggedAccuracy real  \<comment> \<open>this accuracy was logged\<close>
  | Trained  \<comment> \<open>the training loop was invoked\<close>
  | Copied string string  \<comment> \<open>a directory tree was copied, from and to\<close>

definition stage_of :: "event \<Rightarrow> stage list" where
  "stage_of ev =
     (case ev of
        SaveKerasModel m d \<Rightarrow> [Saved d]
      | LoadKerasModel p \<Rightarrow> [Loaded p]
      | EvaluateGenerator g \<Rightarrow> [Evaluated g]
      | LogInfo msg \<Rightarrow> (case msg of Accuracy a \<Rightarrow> [LoggedAccuracy a] | _ \<Rightarrow> [])
      | FitGenerator m c \<Rightarrow> [Trained]
      | CopyTree src dst \<Rightarrow> [Copied src dst]
      | _ \<Rightarrow> [])"

definition stages :: "event list \<Rightarrow> stage list" where
  \<comment> \<open>The calls that serialize, load, evaluate, train or copy a model and the log lines
      that report an accuracy, in the order of the events.\<close>
  "stages evs = concat (map stage_of evs)"

definition evaluation_of :: "event \<Rightarrow> directory_iterator list" where
  "evaluation_of ev = (case ev of EvaluateGenerator g \<Rightarrow> [g] | _ \<Rightarrow> [])"

definition evaluations :: "event list \<Rightarrow> directory_iterator list" where
  \<comment> \<open>The iterator of every \<open>evaluate_generator\<close> call.\<close>
  "evaluations evs = concat (map evaluation_of evs)"

definition test_feeder :: "flags \<Rightarrow> env \<Rightarrow> directory_iterator" where
  \<comment> \<open>The third iterator that \<open>main\<close> obtains from \<open>create_data_feeders\<close>.\<close>
  "test_feeder f e =
     flow_from_directory e datagen (join (image_dir f) ''test'')
       (image_size f, image_size f) (train_batch_size f)"

definition checkpoint_dir :: "flags \<Rightarrow> string" where
  \<comment> \<open>The local variable \<open>checkpoint_dir\<close> of \<open>main\<close>.\<close>
  "checkpoint_dir f = join (dirname (model_dir f)) ''checkpoints''"

definition exported :: "(string \<times> node) list" where
  \<comment> \<open>The entries of an export directory.\<close>
  "exported =
     [(''saved_model.pb'', File ''trained''),
      (''variables'', Dir [(''variables.index'', File ''index'')])]"

definition fresh_root :: node where
  \<comment> \<open>A file system that holds the export and no \<open>model_dir\<close> yet.\<close>
  "fresh_root =
     Dir [(''tf_files'',
           Dir [(''models'',
                 Dir [(''checkpoints'', Dir [(''1543665700'', Dir exported)])])])]"

definition used_root :: node where
  \<comment> \<open>A file system in which \<open>model_dir\<close> already holds a file from earlier work.\<close>
  "used_root =
     Dir [(''tf_files'',
           Dir [(''models'',
                 Dir [(''checkpoints'', Dir [(''1543665700'', Dir exported)]),
                      (''retrained'', Dir [(''notes.txt'', File ''earlier'')])])])]"

definition example_env :: env where
  "example_env =
     \<lparr> scan = (\<lambda>dir. [(''A'', 0), (''B'', 1), (''C'', 2)]),
       timestamp = ''20181201-120000'',
       untrained_path = ''tf_files/models/checkpoints/1543665600'',
       output_path = ''tf_files/models/checkpoints/1543665700'',
       initial_accuracy = 2 / 10,
       final_accuracy = 9 / 10 \<rparr>"

section \<open>Properties\<close>

subsection \<open>Runs and their events\<close>

lemma training_schedule_append: "training_schedule (xs @ ys) = training_schedule xs @ training_schedule ys"
  by (simp add: training_schedule_def)

lemma until_raise_prefix: "\<exists>rest. evs = fst (until_raise r i evs) @ rest"
proof (induction evs arbitrary: i)
  case Nil
  show ?case by simp
next
  case (Cons ev evs)
  from Cons [of "Suc i"] obtain rest where "evs = fst (until_raise r (Suc i) evs) @ rest" ..
  then show ?case by (cases "until_raise r (Suc i) evs") auto
qed

lemma until_raise_none: "snd (until_raise r i evs) = None \<Longrightarrow> fst (until_raise r i evs) = evs"
proof (induction evs arbitrary: i)
  case Nil
  show ?case by simp
next
  case (Cons ev evs)
  from Cons.prems have "r i"
    by (auto split: if_splits)
  with Cons.prems have "snd (until_raise r (Suc i) evs) = None"
    by (cases "until_raise r (Suc i) evs") auto
  then have "fst (until_raise r (Suc i) evs) = evs"
    by (rule Cons.IH)
  with \<open>r i\<close> show ?case
    by (cases "until_raise r (Suc i) evs") auto
qed

lemma until_raise_all_return: "until_raise (\<lambda>_. True) i evs = (evs, None)"
  by (induction evs arbitrary: i) auto

lemma run_all_return: "run (\<lambda>_. True) f e = main f e"
  by (simp add: run_def until_raise_all_return)

lemma run_completed: "snd (run r f e) = Completed \<Longrightarrow> run r f e = main f e"
  unfolding run_def using until_raise_none [of r 0 "fst (main f e)"]
  by (auto split: prod.splits option.splits intro: prod_eqI)

lemma run_prefix: "\<exists>rest. fst (main f e) = fst (run r f e) @ rest"
  unfolding run_def using until_raise_prefix [of "fst (main f e)" r 0]
  by (auto split: prod.splits option.splits)

lemma main_outcome:
  "snd (main f e) =
     (if train_batch_size f = 0 \<or> 2055 div train_batch_size f = 0
      then Raised ZeroDivisionError else Completed)"
  by (simp add: main_def Let_def floordiv_def num_train_images_def create_data_feeders_def
      create_model_def split: prod.splits)

lemma steps_zero_iff: "b \<noteq> 0 \<Longrightarrow> (2055 div b = 0) = (2055 < (b::int))"
  by (auto simp: zdiv_eq_0_iff)

lemma main_schedule:
  "training_schedule (fst (main f e)) =
     (if train_batch_size f = 0 \<or> 2055 div train_batch_size f = 0 then []
      else [(2055 div train_batch_size f,
             how_many_training_steps f div (2055 div train_batch_size f))])"
  by (simp add: main_def Let_def floordiv_def num_train_images_def create_data_feeders_def
      create_model_def create_feature_extractor_def add_classifier_def save_labels_to_file_def
      evaluate_model_def training_schedule_def fit_of_def)

lemma default_flags_fields:
  "how_many_training_steps default_flags = 200"
  "train_batch_size default_flags = 100"
  "test_batch_size default_flags = - 1"
  "validation_batch_size default_flags = 100"
  "model_dir default_flags = ''tf_files/models/retrained''"
  "image_dir default_flags = []"
  "image_size default_flags = 224"
  "optimizer_name default_flags = ''sgd''"
  "learning_rate default_flags = 1 / 100"
  "output_labels default_flags = ''/tmp/output_labels.txt''"
  "summaries_dir default_flags = ''/tmp/retrain_logs''"
  by (simp_all add: default_flags_def)

lemmas main_unfold = main_def Let_def floordiv_def num_train_images_def num_labels_def
  create_data_feeders_def create_model_def create_feature_extractor_def add_classifier_def
  save_labels_to_file_def evaluate_model_def create_callbacks_def

lemma run_schedule_subset:
  "set (training_schedule (fst (run r f e))) \<subseteq> set (training_schedule (fst (main f e)))"
proof -
  obtain rest where "fst (main f e) = fst (run r f e) @ rest"
    using run_prefix by blast
  then show ?thesis
    by (simp add: training_schedule_append)
qed

subsection \<open>The schedule handed to the training loop\<close>

text \<open>
  Claim C1 says that the training loop receives
  \<open>steps_per_epoch = how_many_training_steps // train_batch_size\<close>, so 2 steps per epoch and
  100 epochs for 200 training steps in batches of 100. The script divides the hard-coded
  \<open>num_train_images = 2055\<close> by the batch size instead: with the default flags the loop
  receives 20 steps per epoch and 10 epochs, not 2 and 100.
\<close>

theorem training_schedule_counterexample:
  "training_schedule (fst (main default_flags example_env)) = [(20, 10)]
   \<and> training_schedule (fst (main default_flags example_env)) \<noteq> [(2, 100)]"
  by (simp add: main_schedule default_flags_fields)

text \<open>
  Claim C1, amended: whenever the training loop is invoked it receives
  \<open>steps_per_epoch = 2055 // train_batch_size\<close> and
  \<open>epochs = how_many_training_steps // steps_per_epoch\<close>, and a run that completes invokes
  it exactly once; for 200 training steps and a batch size of 100 these are 20 and 10.
\<close>

theorem training_schedule_from_image_count:
  "(snd (run returns f e) = Completed \<longrightarrow>
      training_schedule (fst (run returns f e)) =
        [(2055 div train_batch_size f,
          how_many_training_steps f div (2055 div train_batch_size f))])
   \<and> (\<forall>spe ep. (spe, ep) \<in> set (training_schedule (fst (run returns f e))) \<longrightarrow>
          spe = 2055 div train_batch_size f \<and> ep = how_many_training_steps f div spe)
   \<and> (how_many_training_steps f = 200 \<and> train_batch_size f = 100 \<longrightarrow>
          training_schedule (fst (main f e)) = [(20, 10)])"
proof (intro conjI impI allI)
  assume c: "snd (run returns f e) = Completed"
  then have "run returns f e = main f e"
    by (rule run_completed)
  with c show "training_schedule (fst (run returns f e)) =
        [(2055 div train_batch_size f,
          how_many_training_steps f div (2055 div train_batch_size f))]"
    by (simp add: main_schedule main_outcome split: if_splits)
next
  fix spe ep
  assume "(spe, ep) \<in> set (training_schedule (fst (run returns f e)))"
  then have "(spe, ep) \<in> set (training_schedule (fst (main f e)))"
    using run_schedule_subset by blast
  then have "(spe, ep) = (2055 div train_batch_size f,
          how_many_training_steps f div (2055 div train_batch_size f))"
    by (simp add: main_schedule split: if_splits)
  then show "spe = 2055 div train_batch_size f" and "ep = how_many_training_steps f div spe"
    by simp_all
next
  assume "how_many_training_steps f = 200 \<and> train_batch_size f = 100"
  then show "training_schedule (fst (main f e)) = [(20, 10)]"
    by (simp add: main_schedule)
qed

text \<open>The amended claim C1 at the default flags, every call returning.\<close>

theorem training_schedule_from_image_count_witness:
  "snd (run (\<lambda>i. True) default_flags example_env) = Completed
   \<and> how_many_training_steps default_flags = 200 \<and> train_batch_size default_flags = 100
   \<and> training_schedule (fst (run (\<lambda>i. True) default_flags example_env)) = [(20, 10)]
   \<and> (20, 10) \<in> set (training_schedule (fst (run (\<lambda>i. True) default_flags example_env)))
   \<and> training_schedule (fst (main default_flags example_env)) = [(20, 10)]"
proof -
  note t = training_schedule_from_image_count [of "\<lambda>i. True" default_flags example_env]
  have c: "snd (run (\<lambda>i. True) default_flags example_env) = Completed"
    by (simp add: run_all_return main_outcome default_flags_fields)
  have d: "how_many_training_steps default_flags = 200 \<and> train_batch_size default_flags = 100"
    by (simp add: default_flags_fields)
  from t c have "training_schedule (fst (run (\<lambda>i. True) default_flags example_env)) =
      [(2055 div train_batch_size default_flags,
        how_many_training_steps default_flags div (2055 div train_batch_size default_flags))]"
    by blast
  then have s: "training_schedule (fst (run (\<lambda>i. True) default_flags example_env)) = [(20, 10)]"
    by (simp add: default_flags_fields)
  from t d have m: "training_schedule (fst (main default_flags example_env)) = [(20, 10)]"
    by blast
  from c d s m show ?thesis
    by simp
qed

subsection \<open>Division by zero\<close>

text \<open>
  Claim C2 says that a batch size above \<open>how_many_training_steps\<close> gives
  \<open>steps_per_epoch = 0\<close> and a division by zero. With 200 training steps and a batch size
  of 300 the script computes \<open>2055 // 300 = 6\<close> steps per epoch and \<open>200 // 6 = 33\<close>
  epochs, and the run completes.
\<close>

theorem batch_above_steps_counterexample:
  "how_many_training_steps (default_flags\<lparr>train_batch_size := 300\<rparr>)
     < train_batch_size (default_flags\<lparr>train_batch_size := 300\<rparr>)
   \<and> snd (main (default_flags\<lparr>train_batch_size := 300\<rparr>) example_env) = Completed
   \<and> training_schedule (fst (main (default_flags\<lparr>train_batch_size := 300\<rparr>) example_env))
       = [(6, 33)]"
  by (simp add: main_schedule main_outcome default_flags_fields)

text \<open>
  Claim C2, amended: when the batch size is above 2055, the hard-coded number of training
  images, \<open>steps_per_epoch\<close> is 0 and the computation of the epoch count raises
  \<open>ZeroDivisionError\<close>; the run does not complete, whatever the other calls do, and the
  training loop is never invoked.
\<close>

theorem batch_above_image_count_raises:
  assumes "2055 < train_batch_size f"
  shows "floordiv num_train_images (train_batch_size f) = Inr 0
     \<and> floordiv (how_many_training_steps f) 0 = Inl ZeroDivisionError
     \<and> snd (main f e) = Raised ZeroDivisionError
     \<and> snd (run returns f e) \<noteq> Completed
     \<and> training_schedule (fst (run returns f e)) = []"
proof -
  from assms have z: "2055 div train_batch_size f = 0" and nz: "train_batch_size f \<noteq> 0"
    by simp_all
  have m: "snd (main f e) = Raised ZeroDivisionError"
    using z by (simp add: main_outcome)
  have "snd (run returns f e) \<noteq> Completed"
  proof
    assume "snd (run returns f e) = Completed"
    then have "run returns f e = main f e" by (rule run_completed)
    with \<open>snd (run returns f e) = Completed\<close> m show False by simp
  qed
  moreover have "training_schedule (fst (run returns f e)) = []"
    using run_schedule_subset [of returns f e] z by (simp add: main_schedule)
  ultimately show ?thesis
    using z nz m by (simp add: floordiv_def num_train_images_def)
qed

text \<open>The amended claim C2 at a batch size of 3000.\<close>

theorem batch_above_image_count_raises_witness:
  "2055 < train_batch_size (default_flags\<lparr>train_batch_size := 3000\<rparr>)
   \<and> snd (main (default_flags\<lparr>train_batch_size := 3000\<rparr>) example_env) = Raised ZeroDivisionError
   \<and> training_schedule (fst (run (\<lambda>i. True) (default_flags\<lparr>train_batch_size := 3000\<rparr>) example_env)) = []"
  using batch_above_image_count_raises
    [of "default_flags\<lparr>train_batch_size := 3000\<rparr>" example_env "\<lambda>i. True"]
  by (simp add: default_flags_fields)

subsection \<open>Choice of the optimizer\<close>

lemma main_compiled_with:
  "compiled_with (fst (main f e)) =
     choose_optimizer (learning_rate f) (Some (optimizer_name f))
     # MomentumOptimizer (1 / 1000) (9 / 10)
     # (if snd (main f e) = Completed then [MomentumOptimizer (1 / 1000) (9 / 10)] else [])"
  by (simp add: main_unfold compiled_with_def compile_of_def)

lemma choose_optimizer_cases: "choose_optimizer lr opt = SGD lr \<or> choose_optimizer lr opt = Adam lr"
  by (auto simp: choose_optimizer_def available_optimizers_def split: option.splits)

text \<open>
  Claim C3: for an optimizer name outside \<open>{"sgd", "adam"}\<close>, \<open>create_model\<close> does exactly
  what it does for \<open>"sgd"\<close>, and so does the whole of \<open>main\<close>: it issues the same calls and
  returns the same model, compiled with the \<open>sgd\<close> optimizer at the given learning rate.
  For \<open>"sgd"\<close> and \<open>"adam"\<close> the model is compiled with the named optimizer. The first
  \<open>compile\<close> call of \<open>main\<close> is the one of \<open>create_model\<close>, on the \<open>optimizer_name\<close> flag.
\<close>

theorem unknown_optimizer_falls_back_to_sgd:
  "(name \<notin> {''sgd'', ''adam''} \<longrightarrow>
      create_model n shape lr (Some name) ft = create_model n shape lr (Some ''sgd'') ft
      \<and> main (f\<lparr>optimizer_name := name\<rparr>) e = main (f\<lparr>optimizer_name := ''sgd''\<rparr>) e)
   \<and> compiled_with (fst (create_model n shape lr (Some ''sgd'') ft)) = [SGD lr]
   \<and> compiled_optimizer (snd (create_model n shape lr (Some ''sgd'') ft)) = SGD lr
   \<and> compiled_with (fst (create_model n shape lr (Some ''adam'') ft)) = [Adam lr]
   \<and> compiled_optimizer (snd (create_model n shape lr (Some ''adam'') ft)) = Adam lr
   \<and> take 1 (compiled_with (fst (main f e))) =
       [if optimizer_name f = ''adam'' then Adam (learning_rate f) else SGD (learning_rate f)]"
proof -
  have unknown: "choose_optimizer r (Some name) = choose_optimizer r (Some ''sgd'')"
    if "name \<notin> {''sgd'', ''adam''}" for r
    using that by (simp add: choose_optimizer_def available_optimizers_def)
  have "create_model n shape lr (Some name) ft = create_model n shape lr (Some ''sgd'') ft"
    if "name \<notin> {''sgd'', ''adam''}"
    using unknown [OF that] by (simp add: create_model_def)
  moreover have "main (f\<lparr>optimizer_name := name\<rparr>) e = main (f\<lparr>optimizer_name := ''sgd''\<rparr>) e"
    if "name \<notin> {''sgd'', ''adam''}"
    using unknown [OF that] by (simp add: main_def Let_def create_model_def cong: sum.case_cong)
  moreover have "compiled_with (fst (create_model n shape lr (Some ''sgd'') ft)) = [SGD lr]"
    and "compiled_optimizer (snd (create_model n shape lr (Some ''sgd'') ft)) = SGD lr"
    and "compiled_with (fst (create_model n shape lr (Some ''adam'') ft)) = [Adam lr]"
    and "compiled_optimizer (snd (create_model n shape lr (Some ''adam'') ft)) = Adam lr"
    by (simp_all add: create_model_def Let_def create_feature_extractor_def add_classifier_def
        choose_optimizer_def available_optimizers_def compiled_with_def compile_of_def)
  moreover have "take 1 (compiled_with (fst (main f e))) =
       [if optimizer_name f = ''adam'' then Adam (learning_rate f) else SGD (learning_rate f)]"
    by (simp add: main_compiled_with choose_optimizer_def available_optimizers_def)
  ultimately show ?thesis
    by blast
qed

text \<open>Claim C3 at the name \<open>"rmsprop"\<close>.\<close>

theorem unknown_optimizer_falls_back_to_sgd_witness:
  "''rmsprop'' \<notin> {''sgd'', ''adam''}
   \<and> create_model 5 (224, 224, 3) (1 / 100) (Some ''rmsprop'') False
       = create_model 5 (224, 224, 3) (1 / 100) (Some ''sgd'') False
   \<and> compiled_with (fst (create_model 5 (224, 224, 3) (1 / 100) (Some ''rmsprop'') False))
       = [SGD (1 / 100)]
   \<and> compiled_optimizer (snd (create_model 5 (224, 224, 3) (1 / 100) (Some ''rmsprop'') False))
       = SGD (1 / 100)"
proof -
  note t = unknown_optimizer_falls_back_to_sgd
    [where name = "''rmsprop''" and n = 5 and shape = "(224, 224, 3)" and lr = "1 / 100"
      and ft = False]
  have h: "''rmsprop'' \<notin> {''sgd'', ''adam''}"
    by simp
  from t h have "create_model 5 (224, 224, 3) (1 / 100) (Some ''rmsprop'') False
       = create_model 5 (224, 224, 3) (1 / 100) (Some ''sgd'') False"
    by blast
  moreover from t
  have "compiled_with (fst (create_model 5 (224, 224, 3) (1 / 100) (Some ''sgd'') False))
       = [SGD (1 / 100)]"
    and "compiled_optimizer (snd (create_model 5 (224, 224, 3) (1 / 100) (Some ''sgd'') False))
       = SGD (1 / 100)"
    by blast+
  ultimately show ?thesis
    using h by simp
qed

subsection \<open>Batch sizes of the feeders\<close>

lemma main_feeders:
  "feeders (fst (main f e)) =
     [flow_from_directory e train_datagen (join (image_dir f) ''train'')
        (image_size f, image_size f) (train_batch_size f),
      flow_from_directory e datagen (join (image_dir f) ''val'')
        (image_size f, image_size f) (train_batch_size f),
      flow_from_directory e datagen (join (image_dir f) ''test'')
        (image_size f, image_size f) (train_batch_size f)]"
  by (simp add: main_unfold feeders_def feeder_of_def)

lemma batch_size_flags_unread:
  "main (f\<lparr>test_batch_size := a, validation_batch_size := b\<rparr>) e = main f e"
  by (simp add: main_def Let_def cong: sum.case_cong)

text \<open>
  Claim C4 says that the test feeder's batch size is the \<open>test_batch_size\<close> flag and the
  validation feeder's batch size the \<open>validation_batch_size\<close> flag, as the help texts of the
  two flags announce. \<open>main\<close> hands \<open>train_batch_size\<close> to \<open>create_data_feeders\<close>, which uses it
  for all three iterators, and reads neither flag: with \<open>test_batch_size = -1\<close>,
  \<open>validation_batch_size = 50\<close> and \<open>train_batch_size = 100\<close> all three iterators are requested
  with a batch size of 100.
\<close>

theorem feeders_share_train_batch_size:
  "test_batch_size (default_flags\<lparr>validation_batch_size := 50\<rparr>) = - 1
   \<and> validation_batch_size (default_flags\<lparr>validation_batch_size := 50\<rparr>) = 50
   \<and> map directory (feeders (fst (main (default_flags\<lparr>validation_batch_size := 50\<rparr>) example_env)))
       = [''train'', ''val'', ''test'']
   \<and> map batch_size (feeders (fst (main (default_flags\<lparr>validation_batch_size := 50\<rparr>) example_env)))
       = [100, 100, 100]"
  by (simp add: main_feeders flow_from_directory_def default_flags_fields join_def)

subsection \<open>The label file\<close>

lemma update_fresh_key: "k \<notin> fst ` set al \<Longrightarrow> AList.update k v al = al @ [(k, v)]"
  by (induction al) auto

lemma invert_onto:
  "distinct (map fst acc @ map snd ps) \<Longrightarrow>
     foldl (\<lambda>acc (k, v). AList.update v k acc) acc ps = acc @ map (\<lambda>(k, v). (v, k)) ps"
proof (induction ps arbitrary: acc)
  case Nil
  show ?case by simp
next
  case (Cons p ps)
  obtain k v where p: "p = (k, v)" by (cases p)
  from Cons.prems p have fresh: "v \<notin> fst ` set acc"
    by auto
  from Cons.prems p have "distinct (map fst (acc @ [(v, k)]) @ map snd ps)"
    by auto
  then have "foldl (\<lambda>acc (k, v). AList.update v k acc) (acc @ [(v, k)]) ps
      = (acc @ [(v, k)]) @ map (\<lambda>(k, v). (v, k)) ps"
    by (rule Cons.IH)
  with fresh p show ?case
    by (simp add: update_fresh_key)
qed

lemma classes_by_idx_distinct:
  "distinct (map snd ci) \<Longrightarrow> classes_by_idx ci = map (\<lambda>(k, v). (v, k)) ci"
  using invert_onto [of "[]" ci] by (simp add: classes_by_idx_def)

lemma main_saved_labels:
  "saved_labels (fst (main f e)) = [classes_by_idx (scan e (join (image_dir f) ''train''))]"
  by (simp add: main_unfold saved_labels_def saved_of_def flow_from_directory_def)

text \<open>
  Claim C5: for a label mapping of the training iterator (a dictionary, so its labels are
  distinct, whose indices are distinct too, as the framework numbers the classes),
  \<open>save_labels_to_file\<close> first creates the directory of the label file and then saves the
  mapping with every pair turned round, that is the inverse mapping from index to label;
  \<open>main\<close> saves the mapping found in the training directory.
\<close>

theorem label_file_holds_inverse_mapping:
  assumes "distinct (map fst (class_indices g))" and "distinct (map snd (class_indices g))"
  shows "save_labels_to_file g file =
           [Makedirs (dirname file),
            LogInfo (Text (''Saving trained classes to '' @ file)),
            NpSave file (map (\<lambda>(label, i). (i, label)) (class_indices g))]
     \<and> (\<forall>i label. (map_of (classes_by_idx (class_indices g)) i = Some label)
                    = (map_of (class_indices g) label = Some i))
     \<and> saved_labels (fst (main f e)) = [classes_by_idx (scan e (join (image_dir f) ''train''))]"
proof -
  from assms(2) have inv: "classes_by_idx (class_indices g)
      = map (\<lambda>(label, i). (i, label)) (class_indices g)"
    by (rule classes_by_idx_distinct)
  have keys: "map fst (map (\<lambda>(label, i). (i, label)) (class_indices g)) = map snd (class_indices g)"
    by (induction "class_indices g") auto
  have dk: "distinct (map fst (map (\<lambda>(label, i). (i, label)) (class_indices g)))"
    by (simp only: keys assms(2))
  have "\<And>i label. (map_of (map (\<lambda>(label, i). (i, label)) (class_indices g)) i = Some label)
       = (map_of (class_indices g) label = Some i)"
  proof -
    fix i label
    have "(map_of (map (\<lambda>(label, i). (i, label)) (class_indices g)) i = Some label)
        = ((i, label) \<in> set (map (\<lambda>(label, i). (i, label)) (class_indices g)))"
      by (rule map_of_eq_Some_iff [OF dk])
    also have "\<dots> = ((label, i) \<in> set (class_indices g))"
      by auto
    also have "\<dots> = (map_of (class_indices g) label = Some i)"
      using assms(1) by simp
    finally show "(map_of (map (\<lambda>(label, i). (i, label)) (class_indices g)) i = Some label)
       = (map_of (class_indices g) label = Some i)" .
  qed
  with inv show ?thesis
    by (simp add: save_labels_to_file_def main_saved_labels)
qed

text \<open>Claim C5 for the labels \<open>A\<close>, \<open>B\<close>, \<open>C\<close> with the indices 0, 1, 2.\<close>

theorem label_file_holds_inverse_mapping_witness:
  "distinct (map fst (class_indices
       (flow_from_directory example_env train_datagen ''train'' (224, 224) 100)))
   \<and> distinct (map snd (class_indices
       (flow_from_directory example_env train_datagen ''train'' (224, 224) 100)))
   \<and> save_labels_to_file (flow_from_directory example_env train_datagen ''train'' (224, 224) 100)
        ''/tmp/output_labels.txt'' =
        [Makedirs ''/tmp'',
         LogInfo (Text ''Saving trained classes to /tmp/output_labels.txt''),
         NpSave ''/tmp/output_labels.txt'' [(0, ''A''), (1, ''B''), (2, ''C'')]]"
proof -
  have ci: "class_indices (flow_from_directory example_env train_datagen ''train'' (224, 224) 100)
      = [(''A'', 0), (''B'', 1), (''C'', 2)]"
    by (simp add: flow_from_directory_def example_env_def)
  have d: "dirname ''/tmp/output_labels.txt'' = ''/tmp''"
    by (simp add: dirname_def rstrip_slash_def)
  have h1: "distinct (map fst (class_indices
       (flow_from_directory example_env train_datagen ''train'' (224, 224) 100)))"
    by (simp add: ci)
  have h2: "distinct (map snd (class_indices
       (flow_from_directory example_env train_datagen ''train'' (224, 224) 100)))"
    by (simp add: ci)
  from label_file_holds_inverse_mapping [OF h1 h2, of "''/tmp/output_labels.txt''"]
  have "save_labels_to_file (flow_from_directory example_env train_datagen ''train'' (224, 224) 100)
        ''/tmp/output_labels.txt'' =
        [Makedirs (dirname ''/tmp/output_labels.txt''),
         LogInfo (Text (''Saving trained classes to '' @ ''/tmp/output_labels.txt'')),
         NpSave ''/tmp/output_labels.txt'' (map (\<lambda>(label, i). (i, label))
           (class_indices (flow_from_directory example_env train_datagen ''train'' (224, 224) 100)))]"
    by blast
  with h1 h2 show ?thesis
    by (simp add: ci d)
qed

subsection \<open>Hard-coded sizes\<close>

lemma dense_units_append: "dense_units (xs @ ys) = dense_units xs @ dense_units ys"
  by (simp add: dense_units_def)

lemma main_dense_units: "dense_units (fst (main f e)) = [5]"
  by (simp add: main_unfold dense_units_def dense_of_def)

lemma run_dense_units:
  "dense_units (fst (run r f e)) = [] \<or> dense_units (fst (run r f e)) = [5]"
proof -
  obtain rest where "fst (main f e) = fst (run r f e) @ rest"
    using run_prefix by blast
  then have "dense_units (fst (run r f e)) @ dense_units rest = [5]"
    using main_dense_units [of f e] by (simp add: dense_units_append)
  then show ?thesis
    by (auto simp: append_eq_Cons_conv)
qed

text \<open>
  Claim C6: whatever the environment (so whatever classes the directory scan finds), the
  classification layer that \<open>main\<close> creates has 5 units, and \<open>steps_per_epoch\<close> is
  \<open>2055 // train_batch_size\<close>: a run creates no other fully-connected layer, a run that
  completes has created that one, and every invocation of the training loop receives that
  number of steps.
\<close>

theorem head_units_and_steps_hard_coded:
  "dense_units (fst (main f e)) = [5]
   \<and> classifier_units (snd (create_model num_labels shape lr opt ft)) = 5
   \<and> (dense_units (fst (run returns f e)) = [] \<or> dense_units (fst (run returns f e)) = [5])
   \<and> (snd (run returns f e) = Completed \<longrightarrow> dense_units (fst (run returns f e)) = [5])
   \<and> floordiv num_train_images (train_batch_size f) =
       (if train_batch_size f = 0 then Inl ZeroDivisionError
        else Inr (2055 div train_batch_size f))
   \<and> (\<forall>spe ep. (spe, ep) \<in> set (training_schedule (fst (run returns f e))) \<longrightarrow>
          spe = 2055 div train_batch_size f)"
proof (intro conjI impI allI)
  show "dense_units (fst (main f e)) = [5]"
    by (rule main_dense_units)
  show "classifier_units (snd (create_model num_labels shape lr opt ft)) = 5"
    by (simp add: create_model_def Let_def num_labels_def)
  show "dense_units (fst (run returns f e)) = [] \<or> dense_units (fst (run returns f e)) = [5]"
    by (rule run_dense_units)
  show "floordiv num_train_images (train_batch_size f) =
       (if train_batch_size f = 0 then Inl ZeroDivisionError
        else Inr (2055 div train_batch_size f))"
    by (simp add: floordiv_def num_train_images_def)
next
  assume "snd (run returns f e) = Completed"
  then have "run returns f e = main f e"
    by (rule run_completed)
  then show "dense_units (fst (run returns f e)) = [5]"
    by (simp add: main_dense_units)
next
  fix spe ep
  assume "(spe, ep) \<in> set (training_schedule (fst (run returns f e)))"
  then have "(spe, ep) \<in> set (training_schedule (fst (main f e)))"
    using run_schedule_subset by blast
  then show "spe = 2055 div train_batch_size f"
    by (simp add: main_schedule split: if_splits)
qed

text \<open>
  Claim C6 at the default flags in an environment with three classes, every call
  returning.
\<close>

theorem head_units_and_steps_hard_coded_witness:
  "length (scan example_env (join (image_dir default_flags) ''train'')) = 3
   \<and> snd (run (\<lambda>i. True) default_flags example_env) = Completed
   \<and> dense_units (fst (run (\<lambda>i. True) default_flags example_env)) = [5]
   \<and> (20, 10) \<in> set (training_schedule (fst (run (\<lambda>i. True) default_flags example_env)))
   \<and> 2055 div train_batch_size default_flags = 20"
proof -
  note t = head_units_and_steps_hard_coded [where f = default_flags and e = example_env
      and returns = "\<lambda>i. True"]
  have c: "snd (run (\<lambda>i. True) default_flags example_env) = Completed"
    by (simp add: run_all_return main_outcome default_flags_fields)
  have s: "(20, 10) \<in> set (training_schedule (fst (run (\<lambda>i. True) default_flags example_env)))"
    by (simp add: run_all_return main_schedule default_flags_fields)
  from t c have d: "dense_units (fst (run (\<lambda>i. True) default_flags example_env)) = [5]"
    by blast
  from t s have "20 = 2055 div train_batch_size default_flags"
    by blast
  with c s d show ?thesis
    by (simp add: example_env_def)
qed

subsection \<open>Evaluation\<close>

text \<open>
  Claim C7: \<open>evaluate_model\<close> loads the model, compiles it with
  \<open>MomentumOptimizer(learning_rate=1e-3, momentum=0.9)\<close> whatever its arguments are,
  evaluates it once on the iterator it was given and logs the accuracy; it returns nothing.
  That optimizer differs from every optimizer \<open>create_model\<close> can choose. In \<open>main\<close> the
  model is compiled first with the chosen optimizer and then, in each evaluation, with the
  momentum optimizer.
\<close>

theorem evaluation_recompiles_with_momentum:
  "compiled_with (evaluate_model path g acc) = [MomentumOptimizer (1 / 1000) (9 / 10)]
   \<and> MomentumOptimizer (1 / 1000) (9 / 10) \<noteq> choose_optimizer lr opt
   \<and> MomentumOptimizer (1 / 1000) (9 / 10)
        \<noteq> compiled_optimizer (snd (create_model n shape lr opt ft))
   \<and> evaluations (evaluate_model path g acc) = [g]
   \<and> stages (evaluate_model path g acc) = [Loaded path, Evaluated g, LoggedAccuracy acc]
   \<and> compiled_with (fst (main f e)) =
        choose_optimizer (learning_rate f) (Some (optimizer_name f))
        # MomentumOptimizer (1 / 1000) (9 / 10)
        # (if snd (main f e) = Completed then [MomentumOptimizer (1 / 1000) (9 / 10)] else [])"
proof -
  have "MomentumOptimizer (1 / 1000) (9 / 10) \<noteq> choose_optimizer lr opt"
    using choose_optimizer_cases [of lr opt] by auto
  then show ?thesis
    by (simp add: main_compiled_with)
      (simp add: evaluate_model_def create_model_def Let_def compiled_with_def compile_of_def
        evaluations_def evaluation_of_def stages_def stage_of_def)
qed

subsection \<open>The order of a run: evaluate, train, export, evaluate\<close>

lemma main_stages:
  "stages (fst (main f e)) =
     [Saved (checkpoint_dir f), Loaded (untrained_path e), Evaluated (test_feeder f e),
      LoggedAccuracy (initial_accuracy e)]
     @ (if snd (main f e) = Completed
        then [Trained, Saved (checkpoint_dir f), Copied (output_path e) (model_dir f),
              Loaded (model_dir f), Evaluated (test_feeder f e),
              LoggedAccuracy (final_accuracy e)]
        else [])"
  by (simp add: main_unfold stages_def stage_of_def test_feeder_def checkpoint_dir_def)

lemma main_evaluations:
  "evaluations (fst (main f e)) =
     test_feeder f e # (if snd (main f e) = Completed then [test_feeder f e] else [])"
  by (simp add: main_unfold evaluations_def evaluation_of_def test_feeder_def)

lemma main_copies:
  "copies (fst (main f e)) =
     (if snd (main f e) = Completed then [(output_path e, model_dir f)] else [])"
  by (simp add: main_unfold copies_def copy_of_def)

lemma example_paths:
  "untrained_path example_env = ''tf_files/models/checkpoints/1543665600''"
  "output_path example_env = ''tf_files/models/checkpoints/1543665700''"
  "initial_accuracy example_env = 2 / 10"
  "final_accuracy example_env = 9 / 10"
  by (simp_all add: example_env_def)

text \<open>
  Claim C8: in a run that completes, \<open>evaluate_generator\<close> is called exactly twice, both
  times on the test iterator: first on the model that was just assembled and serialized,
  before the training loop, and then on the model loaded from \<open>model_dir\<close>, after the export
  has been copied there; each evaluation is followed by the log line with its accuracy.
\<close>

theorem evaluation_invoked_twice:
  assumes "snd (run returns f e) = Completed"
  shows "evaluations (fst (run returns f e)) = [test_feeder f e, test_feeder f e]
     \<and> stages (fst (run returns f e)) =
         [Saved (checkpoint_dir f), Loaded (untrained_path e), Evaluated (test_feeder f e),
          LoggedAccuracy (initial_accuracy e),
          Trained,
          Saved (checkpoint_dir f), Copied (output_path e) (model_dir f),
          Loaded (model_dir f), Evaluated (test_feeder f e),
          LoggedAccuracy (final_accuracy e)]"
proof -
  from assms have r: "run returns f e = main f e"
    by (rule run_completed)
  with assms have "snd (main f e) = Completed"
    by simp
  with r show ?thesis
    by (simp add: main_stages main_evaluations)
qed

text \<open>Claim C8 at the default flags, every call returning.\<close>

theorem evaluation_invoked_twice_witness:
  "snd (run (\<lambda>i. True) default_flags example_env) = Completed
   \<and> length (evaluations (fst (run (\<lambda>i. True) default_flags example_env))) = 2
   \<and> stages (fst (run (\<lambda>i. True) default_flags example_env)) =
       [Saved ''tf_files/models/checkpoints'',
        Loaded ''tf_files/models/checkpoints/1543665600'',
        Evaluated (test_feeder default_flags example_env),
        LoggedAccuracy (2 / 10),
        Trained,
        Saved ''tf_files/models/checkpoints'',
        Copied ''tf_files/models/checkpoints/1543665700'' ''tf_files/models/retrained'',
        Loaded ''tf_files/models/retrained'',
        Evaluated (test_feeder default_flags example_env),
        LoggedAccuracy (9 / 10)]"
proof -
  have c: "snd (run (\<lambda>i. True) default_flags example_env) = Completed"
    by (simp add: run_all_return main_outcome default_flags_fields)
  have d: "checkpoint_dir default_flags = ''tf_files/models/checkpoints''"
    by (simp add: checkpoint_dir_def default_flags_fields dirname_def rstrip_slash_def join_def)
  have e: "untrained_path example_env = ''tf_files/models/checkpoints/1543665600''"
    "output_path example_env = ''tf_files/models/checkpoints/1543665700''"
    "initial_accuracy example_env = 2 / 10" "final_accuracy example_env = 9 / 10"
    by (simp_all add: example_env_def)
  from evaluation_invoked_twice [OF c] c show ?thesis
    by (simp add: d e default_flags_fields)
qed

subsection \<open>The export\<close>

lemma lookup_empty_dir: "cs \<noteq> [] \<Longrightarrow> lookup cs (Dir []) = None"
  by (cases cs) simp_all

lemma lookup_mkpath_other:
  "mkpath d r = Inr made \<Longrightarrow> \<not> prefix s d \<Longrightarrow> \<not> prefix d s \<Longrightarrow> lookup s made = lookup s r"
proof (induction d arbitrary: r made s)
  case Nil
  then show ?case by simp
next
  case (Cons c cs)
  from Cons.prems(2) obtain c' cs' where s: "s = c' # cs'"
    by (cases s) auto
  from Cons.prems(1) obtain es where r: "r = Dir es"
    by (cases r) auto
  define sub where "sub = (case map_of es c of None \<Rightarrow> Dir [] | Some n \<Rightarrow> n)"
  from Cons.prems(1) r obtain n' where n': "mkpath cs sub = Inr n'"
    and made: "made = Dir (AList.update c n' es)"
    by (auto simp: sub_def split: sum.splits)
  show ?case
  proof (cases "c' = c")
    case False
    with s r made show ?thesis
      by (simp add: update_conv')
  next
    case True
    with Cons.prems(2,3) s have np: "\<not> prefix cs' cs" "\<not> prefix cs cs'"
      by simp_all
    have "lookup cs' n' = lookup cs' sub"
      using n' np by (rule Cons.IH)
    moreover from np have "cs' \<noteq> []"
      by auto
    ultimately show ?thesis
      using True s r made by (simp add: update_conv' sub_def lookup_empty_dir split: option.splits)
  qed
qed

lemma lookup_put_other:
  "\<not> prefix s d \<Longrightarrow> \<not> prefix d s \<Longrightarrow> lookup s (put d new r) = lookup s r"
proof (induction d new r arbitrary: s rule: put.induct)
  case (1 new n)
  then show ?case by simp
next
  case (2 c cs new b)
  then show ?case by simp
next
  case (3 c cs new es)
  from "3.prems"(1) obtain c' cs' where s: "s = c' # cs'"
    by (cases s) auto
  show ?case
  proof (cases "map_of es c")
    case None
    then show ?thesis by simp
  next
    case (Some n)
    show ?thesis
    proof (cases "c' = c")
      case False
      with s Some show ?thesis
        by (simp add: update_conv')
    next
      case True
      with "3.prems" s have "\<not> prefix cs' cs" "\<not> prefix cs cs'"
        by simp_all
      then have "lookup cs' (put cs new n) = lookup cs' n"
        by (rule "3.IH" [OF Some])
      with True s Some show ?thesis
        by (simp add: update_conv')
    qed
  qed
qed

lemma lookup_put_below:
  "lookup d r \<noteq> None \<Longrightarrow> lookup (d @ p) (put d new r) = lookup p new"
proof (induction d new r rule: put.induct)
  case (1 new n)
  then show ?case by simp
next
  case (2 c cs new b)
  then show ?case by simp
next
  case (3 c cs new es)
  then show ?case
    by (cases "map_of es c") (simp_all add: update_conv')
qed

lemma lookup_append:
  "lookup (d @ p) r = (case lookup d r of None \<Rightarrow> None | Some n \<Rightarrow> lookup p n)"
proof (induction d r rule: lookup.induct)
  case (1 n)
  then show ?case by simp
next
  case (2 c cs b)
  then show ?case by simp
next
  case (3 c cs es)
  then show ?case
    by (cases "map_of es c") simp_all
qed

lemma mkpath_existing: "lookup d r = Some (Dir ds) \<Longrightarrow> mkpath d r = Inr r"
proof (induction d arbitrary: r)
  case Nil
  then show ?case by simp
next
  case (Cons c cs)
  from Cons.prems obtain es where r: "r = Dir es"
    by (cases r) auto
  with Cons.prems obtain n where n: "map_of es c = Some n" and "lookup cs n = Some (Dir ds)"
    by (auto split: option.splits)
  then have "mkpath cs n = Inr n"
    using Cons.IH by blast
  with r n show ?case
    by (simp add: update_triv)
qed

lemma map_of_fresh: "k \<notin> fst ` set al \<Longrightarrow> map_of al k = None"
  by (simp add: map_of_eq_None_iff)

lemma copy_fresh:
  "copyable n \<Longrightarrow> \<forall>xs. n = Dir xs \<longrightarrow> copy_node n None = Inr n"
  "copyable_entries es \<Longrightarrow> fst ` set es \<inter> fst ` set ds = {} \<Longrightarrow> copy_entries es ds = Inr (ds @ es)"
proof (induction n and es arbitrary: and ds rule: copyable_copyable_entries.induct)
  case (1 b)
  then show ?case by simp
next
  case (2 es)
  from "2.prems" have "copyable_entries es"
    by simp
  then have "copy_entries es [] = Inr ([] @ es)"
    by (rule "2.IH") simp
  then show ?case
    by simp
next
  case 3
  then show ?case by simp
next
  case (4 n child es)
  from "4.prems"(1) have nfs: "\<not> is_nfs n" and fresh: "n \<notin> fst ` set es"
    and child: "copyable child" and rest: "copyable_entries es"
    by (simp_all split: if_splits)
  from "4.prems"(2) have nds: "n \<notin> fst ` set ds" and disj: "fst ` set es \<inter> fst ` set ds = {}"
    by auto
  have none: "map_of ds n = None"
    using nds by (rule map_of_fresh)
  have step: "copy_entries es (ds @ [(n, child)]) = Inr ((ds @ [(n, child)]) @ es)"
  proof (rule "4.IH"(2) [OF nfs fresh child rest])
    show "fst ` set es \<inter> fst ` set (ds @ [(n, child)]) = {}"
      using disj fresh by auto
  qed
  show ?case
  proof (cases child)
    case (File bytes)
    with nfs none nds step show ?thesis
      by (simp add: copy_file_def update_fresh_key)
  next
    case (Dir sub)
    have "copy_node child None = Inr child"
      using "4.IH"(1) [OF nfs fresh child] Dir by blast
    with Dir nfs none nds step show ?thesis
      by (simp add: update_fresh_key)
  qed
qed

lemma copy_file_keeps:
  "copy_file n bytes ds = Inr ds' \<Longrightarrow> k \<noteq> n \<Longrightarrow> map_of ds' k = map_of ds k"
  by (auto simp: copy_file_def update_conv' split: option.splits node.splits)

lemma copy_entries_keeps:
  "copy_entries es ds = Inr ds' \<Longrightarrow> k \<notin> fst ` set es \<Longrightarrow> map_of ds' k = map_of ds k"
proof (induction es arbitrary: ds)
  case Nil
  then show ?case by simp
next
  case (Cons entry es)
  obtain n child where entry: "entry = (n, child)"
    by (cases entry)
  from Cons.prems(2) entry have kn: "k \<noteq> n" and kes: "k \<notin> fst ` set es"
    by auto
  show ?case
  proof (cases "is_nfs n")
    case True
    with Cons.prems(1) entry have "copy_entries es ds = Inr ds'"
      by simp
    then show ?thesis
      using kes by (rule Cons.IH)
  next
    case False
    show ?thesis
    proof (cases child)
      case (File bytes)
      with Cons.prems(1) entry False obtain ds1 where c: "copy_file n bytes ds = Inr ds1"
        and r: "copy_entries es ds1 = Inr ds'"
        by (auto split: sum.splits)
      from r kes have "map_of ds' k = map_of ds1 k"
        by (rule Cons.IH)
      with copy_file_keeps [OF c kn] show ?thesis
        by simp
    next
      case (Dir sub)
      with Cons.prems(1) entry False obtain child' where
        r: "copy_entries es (AList.update n child' ds) = Inr ds'"
        by (auto split: sum.splits)
      from r kes have "map_of ds' k = map_of (AList.update n child' ds) k"
        by (rule Cons.IH)
      with kn show ?thesis
        by (simp add: update_conv')
    qed
  qed
qed

lemma copy_tree_fresh:
  assumes "resolve cwd src = Some s" and "resolve cwd dst = Some d"
    and "\<not> prefix s d" and "\<not> prefix d s"
    and "lookup s disk = Some (Dir es)" and "copyable_entries es"
    and "mkpath d disk = Inr made" and "lookup d made = Some (Dir [])"
  shows "copy_tree cwd src dst disk = Done (put d (Dir es) made)"
    and "lookup d (put d (Dir es) made) = Some (Dir es)"
    and "lookup s (put d (Dir es) made) = Some (Dir es)"
proof -
  have "copy_entries es [] = Inr ([] @ es)"
    using assms(6) by (rule copy_fresh(2)) simp
  with assms show "copy_tree cwd src dst disk = Done (put d (Dir es) made)"
    by (simp add: copy_tree_def)
  from assms(8) have "lookup (d @ []) (put d (Dir es) made) = lookup [] (Dir es)"
    by (intro lookup_put_below) simp
  then show "lookup d (put d (Dir es) made) = Some (Dir es)"
    by simp
  have "lookup s (put d (Dir es) made) = lookup s made"
    using assms(3,4) by (rule lookup_put_other)
  also have "\<dots> = lookup s disk"
    using assms(7,3,4) by (rule lookup_mkpath_other)
  finally show "lookup s (put d (Dir es) made) = Some (Dir es)"
    using assms(5) by simp
qed

lemma copy_tree_keeps:
  assumes "resolve cwd src = Some s" and "resolve cwd dst = Some d"
    and "lookup s disk = Some (Dir es)" and "lookup d disk = Some (Dir ds)"
    and "copy_tree cwd src dst disk = Done disk'" and "k \<notin> fst ` set es"
  shows "lookup (d @ [k]) disk' = lookup (d @ [k]) disk"
proof -
  have made: "mkpath d disk = Inr disk"
    using assms(4) by (rule mkpath_existing)
  with assms(1-5) obtain ds' where c: "copy_entries es ds = Inr ds'"
    and r: "disk' = put d (Dir ds') disk"
    by (auto simp: copy_tree_def split: if_splits sum.splits)
  from assms(4) have "lookup (d @ [k]) (put d (Dir ds') disk) = lookup [k] (Dir ds')"
    by (intro lookup_put_below) simp
  also have "\<dots> = lookup [k] (Dir ds)"
    using copy_entries_keeps [OF c assms(6)] by simp
  also have "\<dots> = lookup (d @ [k]) disk"
    using assms(4) by (simp add: lookup_append)
  finally show ?thesis
    using r by simp
qed

lemma example_places:
  "resolve [] ''tf_files/models/checkpoints/1543665700''
     = Some [''tf_files'', ''models'', ''checkpoints'', ''1543665700'']"
  "resolve [] ''tf_files/models/retrained'' = Some [''tf_files'', ''models'', ''retrained'']"
  by (simp_all add: resolve_def components_def)

lemma used_root_copy:
  "copy_tree [] ''tf_files/models/checkpoints/1543665700'' ''tf_files/models/retrained'' used_root
     = Done (Dir [(''tf_files'',
                   Dir [(''models'',
                         Dir [(''checkpoints'', Dir [(''1543665700'', Dir exported)]),
                              (''retrained'',
                               Dir ((''notes.txt'', File ''earlier'') # exported))])])])"
  by (simp add: copy_tree_def example_places used_root_def exported_def is_nfs_def copy_file_def)

text \<open>
  Claim C9 says that after the copy the files of \<open>model_dir\<close> are exactly those of the
  export directory. \<open>copy_tree\<close> adds to its destination and removes nothing from it: when
  \<open>model_dir\<close> already holds a file \<open>notes.txt\<close> that the export does not have, the copy
  returns, the file is still there, and the two directories differ.
\<close>

theorem export_copy_counterexample:
  "copies (fst (main default_flags example_env)) =
     [(''tf_files/models/checkpoints/1543665700'', ''tf_files/models/retrained'')]
   \<and> after_copy [''tf_files'', ''models'', ''retrained'']
         (copy_tree [] ''tf_files/models/checkpoints/1543665700'' ''tf_files/models/retrained''
            used_root)
       = Some (Dir ((''notes.txt'', File ''earlier'') # exported))
   \<and> after_copy [''tf_files'', ''models'', ''checkpoints'', ''1543665700'']
         (copy_tree [] ''tf_files/models/checkpoints/1543665700'' ''tf_files/models/retrained''
            used_root)
       = Some (Dir exported)
   \<and> after_copy [''tf_files'', ''models'', ''retrained'']
         (copy_tree [] ''tf_files/models/checkpoints/1543665700'' ''tf_files/models/retrained''
            used_root)
       \<noteq> after_copy [''tf_files'', ''models'', ''checkpoints'', ''1543665700'']
         (copy_tree [] ''tf_files/models/checkpoints/1543665700'' ''tf_files/models/retrained''
            used_root)"
proof -
  have c: "copies (fst (main default_flags example_env)) =
     [(''tf_files/models/checkpoints/1543665700'', ''tf_files/models/retrained'')]"
    by (simp add: main_copies main_outcome default_flags_fields example_paths)
  have d: "after_copy [''tf_files'', ''models'', ''retrained'']
         (copy_tree [] ''tf_files/models/checkpoints/1543665700'' ''tf_files/models/retrained''
            used_root)
       = Some (Dir ((''notes.txt'', File ''earlier'') # exported))"
    by (simp add: used_root_copy after_copy_def)
  have s: "after_copy [''tf_files'', ''models'', ''checkpoints'', ''1543665700'']
         (copy_tree [] ''tf_files/models/checkpoints/1543665700'' ''tf_files/models/retrained''
            used_root)
       = Some (Dir exported)"
    by (simp add: used_root_copy after_copy_def)
  from c d s show ?thesis
    by simp
qed

text \<open>
  Claim C9, amended: in a run that completes, the model is serialized below the checkpoint
  directory after the training loop, and the directory that the serializer returned is then
  copied to \<open>model_dir\<close>, once. Let the two paths name places neither of which lies inside
  the other, the first a directory. When that directory is one that \<open>copy_tree\<close> copies
  whole and \<open>model_dir\<close> is absent or empty before the copy (once created it has no entry),
  the copy returns and \<open>model_dir\<close> then holds exactly what the export directory holds,
  which the copy has left as it was. Whenever the copy returns, an entry that \<open>model_dir\<close>
  had under a name the export directory does not use is still what it was.
\<close>

theorem export_copies_into_model_dir:
  assumes "snd (run returns f e) = Completed"
    and "resolve cwd (output_path e) = Some s"
    and "resolve cwd (model_dir f) = Some d"
    and "\<not> prefix s d" and "\<not> prefix d s"
    and "lookup s disk = Some (Dir es)"
  shows "dropWhile (\<lambda>st. st \<noteq> Trained) (stages (fst (run returns f e))) =
           [Trained, Saved (checkpoint_dir f), Copied (output_path e) (model_dir f),
            Loaded (model_dir f), Evaluated (test_feeder f e), LoggedAccuracy (final_accuracy e)]
     \<and> copies (fst (run returns f e)) = [(output_path e, model_dir f)]
     \<and> (copyable_entries es \<and> mkpath d disk = Inr made \<and> lookup d made = Some (Dir []) \<longrightarrow>
          after_copy d (copy_tree cwd (output_path e) (model_dir f) disk) = Some (Dir es)
          \<and> after_copy s (copy_tree cwd (output_path e) (model_dir f) disk) = Some (Dir es))
     \<and> (lookup d disk = Some (Dir ds)
          \<and> copy_tree cwd (output_path e) (model_dir f) disk = Done disk'
          \<and> k \<notin> fst ` set es \<longrightarrow>
          lookup (d @ [k]) disk' = lookup (d @ [k]) disk)"
proof -
  from assms(1) have r: "run returns f e = main f e"
    by (rule run_completed)
  with assms(1) have c: "snd (main f e) = Completed"
    by simp
  have fresh: "after_copy d (copy_tree cwd (output_path e) (model_dir f) disk) = Some (Dir es)
      \<and> after_copy s (copy_tree cwd (output_path e) (model_dir f) disk) = Some (Dir es)"
    if "copyable_entries es" and "mkpath d disk = Inr made" and "lookup d made = Some (Dir [])"
    using copy_tree_fresh [OF assms(2-6) that] by (simp add: after_copy_def)
  have kept: "lookup (d @ [k]) disk' = lookup (d @ [k]) disk"
    if "lookup d disk = Some (Dir ds)"
      and "copy_tree cwd (output_path e) (model_dir f) disk = Done disk'"
      and "k \<notin> fst ` set es"
    using assms(2,3,6) that by (rule copy_tree_keeps)
  have "dropWhile (\<lambda>st. st \<noteq> Trained) (stages (fst (run returns f e))) =
           [Trained, Saved (checkpoint_dir f), Copied (output_path e) (model_dir f),
            Loaded (model_dir f), Evaluated (test_feeder f e), LoggedAccuracy (final_accuracy e)]"
    using r c by (simp add: main_stages)
  moreover have "copies (fst (run returns f e)) = [(output_path e, model_dir f)]"
    using r c by (simp add: main_copies)
  ultimately show ?thesis
    using fresh kept by blast
qed

text \<open>
  The amended claim C9 at the default flags, every call returning: on a file system
  without \<open>model_dir\<close> the copy creates it with the two files of the export, and on one where
  \<open>model_dir\<close> holds \<open>notes.txt\<close> that file is kept.
\<close>

theorem export_copies_into_model_dir_witness:
  "snd (run (\<lambda>i. True) default_flags example_env) = Completed
   \<and> resolve [] (output_path example_env)
       = Some [''tf_files'', ''models'', ''checkpoints'', ''1543665700'']
   \<and> resolve [] (model_dir default_flags) = Some [''tf_files'', ''models'', ''retrained'']
   \<and> \<not> prefix [''tf_files'', ''models'', ''checkpoints'', ''1543665700'']
          [''tf_files'', ''models'', ''retrained'']
   \<and> \<not> prefix [''tf_files'', ''models'', ''retrained'']
          [''tf_files'', ''models'', ''checkpoints'', ''1543665700'']
   \<and> lookup [''tf_files'', ''models'', ''checkpoints'', ''1543665700''] fresh_root
       = Some (Dir exported)
   \<and> copyable_entries exported
   \<and> mkpath [''tf_files'', ''models'', ''retrained''] fresh_root
       = Inr (Dir [(''tf_files'',
                    Dir [(''models'',
                          Dir [(''checkpoints'', Dir [(''1543665700'', Dir exported)]),
                               (''retrained'', Dir [])])])])
   \<and> after_copy [''tf_files'', ''models'', ''retrained'']
         (copy_tree [] (output_path example_env) (model_dir default_flags) fresh_root)
       = Some (Dir exported)
   \<and> after_copy [''tf_files'', ''models'', ''checkpoints'', ''1543665700'']
         (copy_tree [] (output_path example_env) (model_dir default_flags) fresh_root)
       = Some (Dir exported)
   \<and> lookup [''tf_files'', ''models'', ''retrained''] used_root
       = Some (Dir [(''notes.txt'', File ''earlier'')])
   \<and> ''notes.txt'' \<notin> fst ` set exported
   \<and> after_copy [''tf_files'', ''models'', ''retrained'', ''notes.txt'']
         (copy_tree [] (output_path example_env) (model_dir default_flags) used_root)
       = Some (File ''earlier'')"
proof -
  let ?s = "[''tf_files'', ''models'', ''checkpoints'', ''1543665700'']"
  let ?d = "[''tf_files'', ''models'', ''retrained'']"
  let ?made = "Dir [(''tf_files'',
                    Dir [(''models'',
                          Dir [(''checkpoints'', Dir [(''1543665700'', Dir exported)]),
                               (''retrained'', Dir [])])])]"
  let ?after = "Dir [(''tf_files'',
                   Dir [(''models'',
                         Dir [(''checkpoints'', Dir [(''1543665700'', Dir exported)]),
                              (''retrained'',
                               Dir ((''notes.txt'', File ''earlier'') # exported))])])]"
  have c: "snd (run (\<lambda>i. True) default_flags example_env) = Completed"
    by (simp add: run_all_return main_outcome default_flags_fields)
  have rs: "resolve [] (output_path example_env) = Some ?s"
    by (simp add: example_paths example_places)
  have rd: "resolve [] (model_dir default_flags) = Some ?d"
    by (simp add: default_flags_fields example_places)
  have n1: "\<not> prefix ?s ?d" and n2: "\<not> prefix ?d ?s"
    by simp_all
  have ls: "lookup ?s fresh_root = Some (Dir exported)"
    by (simp add: fresh_root_def)
  have ce: "copyable_entries exported"
    by (simp add: exported_def is_nfs_def)
  have mk: "mkpath ?d fresh_root = Inr ?made"
    by (simp add: fresh_root_def)
  have em: "lookup ?d ?made = Some (Dir [])"
    by simp
  note fresh = export_copies_into_model_dir [OF c rs rd n1 n2 ls, where made = ?made]
  from fresh ce mk em
  have a: "after_copy ?d (copy_tree [] (output_path example_env) (model_dir default_flags) fresh_root)
        = Some (Dir exported)
      \<and> after_copy ?s (copy_tree [] (output_path example_env) (model_dir default_flags) fresh_root)
        = Some (Dir exported)"
    by blast
  have lu: "lookup ?s used_root = Some (Dir exported)"
    by (simp add: used_root_def)
  have ld: "lookup ?d used_root = Some (Dir [(''notes.txt'', File ''earlier'')])"
    by (simp add: used_root_def)
  have cu: "copy_tree [] (output_path example_env) (model_dir default_flags) used_root = Done ?after"
    by (simp add: example_paths default_flags_fields used_root_copy)
  have nk: "''notes.txt'' \<notin> fst ` set exported"
    by (simp add: exported_def)
  note used = export_copies_into_model_dir [OF c rs rd n1 n2 lu,
      where ds = "[(''notes.txt'', File ''earlier'')]" and disk' = ?after and k = "''notes.txt''"]
  from used ld cu nk
  have "lookup (?d @ [''notes.txt'']) ?after = lookup (?d @ [''notes.txt'']) used_root"
    by blast
  also have "lookup (?d @ [''notes.txt'']) used_root = Some (File ''earlier'')"
    by (simp add: used_root_def)
  finally have b: "after_copy [''tf_files'', ''models'', ''retrained'', ''notes.txt'']
         (copy_tree [] (output_path example_env) (model_dir default_flags) used_root)
       = Some (File ''earlier'')"
    by (simp add: cu after_copy_def)
  from c rs rd n1 n2 ls ce mk a ld nk b show ?thesis
    by blast
qed

subsection \<open>The \<open>epochs\<close> flag\<close>

text \<open>
  Claim C10: \<open>main\<close> never reads the \<open>epochs\<close> flag, so two runs that differ only in it issue
  the same events and end alike, whatever the other calls do; and two runs with the same
  \<open>how_many_training_steps\<close> and \<open>train_batch_size\<close> hand the same schedule to the training
  loop, whatever their other flags and environments are.
\<close>

theorem epochs_flag_unread:
  "main (f\<lparr>epochs := n\<rparr>) e = main f e
   \<and> run returns (f\<lparr>epochs := n\<rparr>) e = run returns f e
   \<and> (how_many_training_steps f = how_many_training_steps f'
        \<and> train_batch_size f = train_batch_size f' \<longrightarrow>
          training_schedule (fst (main f e)) = training_schedule (fst (main f' e')))"
proof -
  have m: "main (f\<lparr>epochs := n\<rparr>) e = main f e"
    by (simp add: main_def Let_def cong: sum.case_cong)
  have "run returns (f\<lparr>epochs := n\<rparr>) e = run returns f e"
    by (simp only: run_def m)
  with m show ?thesis
    by (simp add: main_schedule)
qed

text \<open>Claim C10 for the default flags with \<open>epochs = 3\<close> and with \<open>epochs = 10\<close>.\<close>

theorem epochs_flag_unread_witness:
  "how_many_training_steps default_flags = how_many_training_steps (default_flags\<lparr>epochs := 3\<rparr>)
   \<and> train_batch_size default_flags = train_batch_size (default_flags\<lparr>epochs := 3\<rparr>)
   \<and> main (default_flags\<lparr>epochs := 3\<rparr>) example_env = main default_flags example_env
   \<and> training_schedule (fst (main default_flags example_env))
       = training_schedule (fst (main (default_flags\<lparr>epochs := 3\<rparr>) example_env))"
proof -
  note t = epochs_flag_unread [where f = default_flags and n = 3 and e = example_env
      and returns = "\<lambda>i. True" and f' = "default_flags\<lparr>epochs := 3\<rparr>" and e' = example_env]
  have h: "how_many_training_steps default_flags = how_many_training_steps (default_flags\<lparr>epochs := 3\<rparr>)
      \<and> train_batch_size default_flags = train_batch_size (default_flags\<lparr>epochs := 3\<rparr>)"
    by simp
  from t h show ?thesis
    by blast
qed

end
